theory Spec2Isabelle
  imports Main "HOL-Library.Sublist"
begin

section \<open>Data model\<close>

text \<open>
  The bot of \<^verbatim>\<open>src/bot.py\<close> keeps no state of its own: every handler reads and writes
  two Firestore collections and answers through the chat transport. A document of
  \<^verbatim>\<open>telegramVerifications\<close> is keyed by the verification code and carries the fields
  \<^verbatim>\<open>userId\<close> and \<^verbatim>\<open>phone\<close>, both read with \<^verbatim>\<open>dict.get\<close>, so both may be absent
  (\<open>None\<close>). A document of \<^verbatim>\<open>users\<close> carries \<^verbatim>\<open>phoneVerified\<close> (read only through its
  truth value, so an absent field reads as \<open>False\<close>), \<^verbatim>\<open>telegramUsername\<close> and
  \<^verbatim>\<open>telegramId\<close>. Strings are sequences of UTF-8 bytes, the order Firestore compares
  them in.
\<close>

record vdoc =
  userId :: "string option"
  phone :: "string option"

record udoc =
  phoneVerified :: bool
  telegramUsername :: "string option"
  telegramId :: "int option"

text \<open>\<^verbatim>\<open>update.effective_user\<close>: the requester's numeric id and optional username.\<close>

record tg_user =
  tg_id :: int
  tg_username :: "string option"

text \<open>\<^verbatim>\<open>update.message.contact\<close>: the embedded user id is optional.\<close>

record contact =
  contact_user_id :: "int option"
  phone_number :: "string option"

text \<open>
  Python exceptions that the model can raise. \<open>CancelledError\<close> stands for the exceptions
  that derive from \<^verbatim>\<open>BaseException\<close> only, which \<^verbatim>\<open>except Exception\<close> does not catch.
\<close>

datatype exn = TypeError | ValueError | NotFound | NetworkError | CancelledError

definition is_Exception :: "exn \<Rightarrow> bool" where
  "is_Exception e = (e \<noteq> CancelledError)"

text \<open>The texts the handlers send, one constructor per literal of the source.\<close>

datatype reply =
    Welcome
  | InvalidCode
  | InvalidData
  | UserNotFound
  | VerifiedOk
  | ErrVerification
  | ErrStart
  | ShareOwnContact
  | NoPhoneNumber
  | NoPendingVerification
  | ErrContact
  | HelpText
  | AlreadyVerified
  | NotYetVerified
  | ErrStatus

datatype handler = Start | HandleVerification | HandleContact | HelpCommand | StatusCommand

text \<open>Everything a handler does to the outside, in the order it does it.\<close>

datatype effect =
    VerificationGet string
  | UserGet string
  | UserUpdate string "string option" int
  | VerificationDelete string
  | VerificationQuery string string
  | UserQuery int
  | ReplyText reply
  | LoggedError handler exn
  | LoggedInfo handler string


fun store_mutation :: "effect \<Rightarrow> bool" where
  "store_mutation (UserUpdate _ _ _) = True"
| "store_mutation (VerificationDelete _) = True"
| "store_mutation _ = False"

text \<open>
  The world a handler runs in: the two collections (association lists, in the store's
  iteration order), the effects so far, and the outcomes of the coming calls to the store
  and the transport (\<open>Some e\<close>: the call raises \<open>e\<close>; \<open>None\<close>, or an exhausted list:
  the call goes through). A call raises when the other side is out of reach or refuses
  what it is sent; what the client library refuses by itself, before it calls the store,
  is not in the script but in the definitions below.
\<close>

record world =
  telegramVerifications :: "(string \<times> vdoc) list"
  users :: "(string \<times> udoc) list"
  trace :: "effect list"
  script :: "exn option list"

section \<open>Computations that may raise\<close>

type_synonym 'a io = "world \<Rightarrow> (exn + 'a) \<times> world"

definition io_return :: "'a \<Rightarrow> 'a io" where
  "io_return x w = (Inr x, w)"

definition io_raise :: "exn \<Rightarrow> 'a io" where
  "io_raise e w = (Inl e, w)"

definition io_bind :: "'a io \<Rightarrow> ('a \<Rightarrow> 'b io) \<Rightarrow> 'b io" where
  "io_bind m f w = (case m w of (Inl e, w') \<Rightarrow> (Inl e, w') | (Inr x, w') \<Rightarrow> f x w')"

text \<open>\<^verbatim>\<open>try: body except Exception as e: handler\<close>.\<close>

definition try_except :: "unit io \<Rightarrow> (exn \<Rightarrow> unit io) \<Rightarrow> unit io" where
  "try_except body except w =
     (case body w of
        (Inl e, w') \<Rightarrow> if is_Exception e then except e w' else (Inl e, w')
      | (Inr x, w') \<Rightarrow> (Inr x, w'))"

definition emit :: "effect \<Rightarrow> unit io" where
  "emit ev w = (Inr (), w\<lparr>trace := trace w @ [ev]\<rparr>)"

text \<open>A call that leaves the process takes the next outcome of the script.\<close>

definition extern :: "unit io" where
  "extern w =
     (case script w of
        [] \<Rightarrow> (Inr (), w)
      | None # fs \<Rightarrow> (Inr (), w\<lparr>script := fs\<rparr>)
      | Some e # fs \<Rightarrow> (Inl e, w\<lparr>script := fs\<rparr>))"

section \<open>The transport and the store client\<close>

text \<open>
  \<^verbatim>\<open>await x\<close> runs \<open>x\<close> when it is a coroutine and raises \<^verbatim>\<open>TypeError\<close> when it is not
  awaitable. \<^verbatim>\<open>update.message.reply_text(...)\<close> is a coroutine of the transport library.
  The store handle is \<^verbatim>\<open>firestore.client()\<close> of \<^verbatim>\<open>firebase_admin\<close> (lines 5 and 22), the
  blocking client: the source itself uses the results of \<^verbatim>\<open>get()\<close>, \<^verbatim>\<open>delete()\<close> and
  \<^verbatim>\<open>stream()\<close> directly, with a plain \<^verbatim>\<open>for\<close>. Its \<^verbatim>\<open>update()\<close> has written the fields
  when it returns, and what it returns is a plain \<^verbatim>\<open>WriteResult\<close>.
\<close>

datatype awaited = Coroutine "unit io" | WriteResult

fun py_await :: "awaited \<Rightarrow> unit io" where
  "py_await (Coroutine m) = m"
| "py_await WriteResult = io_raise TypeError"

definition reply_text :: "reply \<Rightarrow> awaited" where
  "reply_text r = Coroutine (io_bind extern (\<lambda>_. emit (ReplyText r)))"

definition logger_error :: "handler \<Rightarrow> exn \<Rightarrow> unit io" where
  "logger_error h e = emit (LoggedError h e)"

definition logger_info :: "handler \<Rightarrow> string \<Rightarrow> unit io" where
  "logger_info h s = emit (LoggedInfo h s)"

text \<open>\<^verbatim>\<open>str.split('/')\<close>\<close>

fun split_slash :: "string \<Rightarrow> string list" where
  "split_slash [] = [[]]"
| "split_slash (c # s) =
     (if c = CHR ''/'' then [] # split_slash s
      else case split_slash s of [] \<Rightarrow> [[c]] | x # xs \<Rightarrow> (c # x) # xs)"

text \<open>
  \<^verbatim>\<open>db.collection(collection_id).document(document_id)\<close> (lines 61, 77 and 136) makes no
  call to the store: the client joins the two names with \<^verbatim>\<open>/\<close>, splits the path at every
  \<^verbatim>\<open>/\<close>, and raises \<^verbatim>\<open>ValueError\<close> unless the number of path elements is even. An id with
  an odd number of \<^verbatim>\<open>/\<close> is refused so. The reference is kept as the document id.
\<close>

definition document :: "string \<Rightarrow> string \<Rightarrow> string io" where
  "document collection_id document_id =
     (if even (length (split_slash (collection_id @ ''/'' @ document_id)))
      then io_return document_id else io_raise ValueError)"

text \<open>
  The document of a collection that a reference names. An id that contains \<^verbatim>\<open>/\<close> and
  passes the check above names a document of a nested collection; the store holds the
  two collections only, so there is no such document.
\<close>

definition named_doc :: "(string \<times> 'a) list \<Rightarrow> string \<Rightarrow> 'a option" where
  "named_doc coll document_id =
     (if CHR ''/'' \<in> set document_id then None else map_of coll document_id)"

text \<open>\<^verbatim>\<open>verification_ref.get()\<close>, line 62\<close>

definition verification_get :: "string \<Rightarrow> vdoc option io" where
  "verification_get verification_ref =
     io_bind extern (\<lambda>_.
     io_bind (emit (VerificationGet verification_ref)) (\<lambda>_ w.
       (Inr (named_doc (telegramVerifications w) verification_ref), w)))"

text \<open>\<^verbatim>\<open>user_ref.get()\<close>, line 78\<close>

definition user_get :: "string \<Rightarrow> udoc option io" where
  "user_get user_ref =
     io_bind extern (\<lambda>_.
     io_bind (emit (UserGet user_ref)) (\<lambda>_ w.
       (Inr (named_doc (users w) user_ref), w)))"

definition set_verified :: "tg_user \<Rightarrow> udoc \<Rightarrow> udoc" where
  "set_verified user d =
     d\<lparr>phoneVerified := True, telegramUsername := tg_username user,
       telegramId := Some (tg_id user)\<rparr>"

text \<open>
  \<^verbatim>\<open>user_ref.update({'phoneVerified': True, 'telegramUsername': ..., 'telegramId': ...})\<close>:
  Firestore's update fails with \<^verbatim>\<open>NotFound\<close> on a document that does not exist.
\<close>

definition user_update :: "string \<Rightarrow> tg_user \<Rightarrow> awaited io" where
  "user_update key user =
     io_bind extern (\<lambda>_ w.
       case named_doc (users w) key of
         None \<Rightarrow> (Inl NotFound, w)
       | Some _ \<Rightarrow>
           (Inr WriteResult,
            w\<lparr>users := map (\<lambda>(k, d). if k = key then (k, set_verified user d) else (k, d))
                          (users w),
              trace := trace w @ [UserUpdate key (tg_username user) (tg_id user)]\<rparr>))"

text \<open>\<^verbatim>\<open>verification_ref.delete()\<close>; deleting a missing document is not an error.\<close>

definition verification_delete :: "string \<Rightarrow> unit io" where
  "verification_delete code =
     io_bind extern (\<lambda>_ w.
       (Inr (),
        w\<lparr>telegramVerifications := filter (\<lambda>(k, d). k \<noteq> code) (telegramVerifications w),
          trace := trace w @ [VerificationDelete code]\<rparr>))"

text \<open>Firestore orders strings by their UTF-8 bytes.\<close>

fun str_le :: "string \<Rightarrow> string \<Rightarrow> bool" where
  "str_le [] _ = True"
| "str_le (a # as) [] = False"
| "str_le (a # as) (b # bs) =
     ((of_char a :: nat) < of_char b \<or> (a = b \<and> str_le as bs))"

text \<open>The character U+F8FF of line 125, in UTF-8.\<close>

definition high_sentinel :: string where
  "high_sentinel = [CHR 0xEF, CHR 0xA3, CHR 0xBF]"

text \<open>
  \<^verbatim>\<open>.where('phone', '>=', lo).where('phone', '<=', hi)\<close>: a document without the field
  is not in the result.
\<close>

definition phone_between :: "string \<Rightarrow> string \<Rightarrow> vdoc \<Rightarrow> bool" where
  "phone_between lo hi d =
     (case phone d of None \<Rightarrow> False | Some q \<Rightarrow> str_le lo q \<and> str_le q hi)"

definition verification_stream :: "string \<Rightarrow> string \<Rightarrow> (string \<times> vdoc) list io" where
  "verification_stream lo hi =
     io_bind extern (\<lambda>_.
     io_bind (emit (VerificationQuery lo hi)) (\<lambda>_ w.
       (Inr (filter (\<lambda>(k, d). phone_between lo hi d) (telegramVerifications w)), w)))"

text \<open>\<^verbatim>\<open>users_ref.where('telegramId', '==', user_id).stream()\<close>\<close>

definition user_stream :: "int \<Rightarrow> (string \<times> udoc) list io" where
  "user_stream i =
     io_bind extern (\<lambda>_.
     io_bind (emit (UserQuery i)) (\<lambda>_ w.
       (Inr (filter (\<lambda>(k, d). telegramId d = Some i) (users w)), w)))"

section \<open>The handlers\<close>

text \<open>\<^verbatim>\<open>handle_verification\<close>, lines 57 to 103.\<close>

definition handle_verification_body :: "tg_user \<Rightarrow> string \<Rightarrow> unit io" where
  "handle_verification_body user verification_code =
     io_bind (document ''telegramVerifications'' verification_code) (\<lambda>verification_ref.
     io_bind (verification_get verification_ref) (\<lambda>verification_doc.
       case verification_doc of
         None \<Rightarrow> py_await (reply_text InvalidCode)
       | Some verification_data \<Rightarrow>
           (case userId verification_data of
              None \<Rightarrow> py_await (reply_text InvalidData)
            | Some uid \<Rightarrow>
                if uid = [] then py_await (reply_text InvalidData)
                else
                  io_bind (document ''users'' uid) (\<lambda>user_ref.
                  io_bind (user_get user_ref) (\<lambda>user_doc.
                    case user_doc of
                      None \<Rightarrow> py_await (reply_text UserNotFound)
                    | Some _ \<Rightarrow>
                        io_bind (user_update user_ref user) (\<lambda>r.
                        io_bind (py_await r) (\<lambda>_.
                        io_bind (verification_delete verification_ref) (\<lambda>_.
                        io_bind (py_await (reply_text VerifiedOk)) (\<lambda>_.
                        logger_info HandleVerification uid)))))))))"

definition handle_verification :: "tg_user \<Rightarrow> string \<Rightarrow> unit io" where
  "handle_verification user verification_code =
     try_except (handle_verification_body user verification_code)
       (\<lambda>e. io_bind (logger_error HandleVerification e) (\<lambda>_.
             py_await (reply_text ErrVerification)))"

text \<open>\<^verbatim>\<open>start\<close>, lines 34 to 55; \<open>args\<close> is \<^verbatim>\<open>context.args\<close>.\<close>

definition start_body :: "tg_user \<Rightarrow> string list \<Rightarrow> unit io" where
  "start_body user args =
     (case args of
        verification_code # _ \<Rightarrow> handle_verification user verification_code
      | [] \<Rightarrow> py_await (reply_text Welcome))"

definition start :: "tg_user \<Rightarrow> string list \<Rightarrow> unit io" where
  "start user args =
     try_except (start_body user args)
       (\<lambda>e. io_bind (logger_error Start e) (\<lambda>_. py_await (reply_text ErrStart)))"

text \<open>\<^verbatim>\<open>str.lstrip(chars)\<close>: drops leading characters while they occur in \<open>chars\<close>.\<close>

fun lstrip :: "string \<Rightarrow> string \<Rightarrow> string" where
  "lstrip chars [] = []"
| "lstrip chars (c # s) = (if c \<in> set chars then lstrip chars s else c # s)"

definition formatted_phone :: "string \<Rightarrow> string" where
  "formatted_phone p = lstrip ''+'' p"

text \<open>The loop of lines 127 to 147; \<open>found\<close> is the flag of line 127.\<close>

fun contact_loop :: "tg_user \<Rightarrow> (string \<times> vdoc) list \<Rightarrow> bool \<Rightarrow> bool io" where
  "contact_loop user [] found = io_return found"
| "contact_loop user ((code, verification_data) # docs) found =
     (case userId verification_data of
        None \<Rightarrow> contact_loop user docs found
      | Some uid \<Rightarrow>
          if uid = [] then contact_loop user docs found
          else
            io_bind (document ''users'' uid) (\<lambda>user_ref.
            io_bind (user_update user_ref user) (\<lambda>r.
            io_bind (py_await r) (\<lambda>_.
            io_bind (verification_delete code) (\<lambda>_.
            io_bind (logger_info HandleContact uid) (\<lambda>_.
            contact_loop user docs True))))))"

text \<open>\<^verbatim>\<open>handle_contact\<close>, lines 105 to 162.\<close>

definition self_check_fails :: "tg_user \<Rightarrow> contact \<Rightarrow> bool" where
  "self_check_fails user c =
     (case contact_user_id c of
        None \<Rightarrow> False
      | Some i \<Rightarrow> i \<noteq> 0 \<and> i \<noteq> tg_id user)"

definition handle_contact_body :: "tg_user \<Rightarrow> contact \<Rightarrow> unit io" where
  "handle_contact_body user c =
     (if self_check_fails user c then py_await (reply_text ShareOwnContact)
      else
        case phone_number c of
          None \<Rightarrow> py_await (reply_text NoPhoneNumber)
        | Some p \<Rightarrow>
            if p = [] then py_await (reply_text NoPhoneNumber)
            else
              io_bind (verification_stream (formatted_phone p)
                         (formatted_phone p @ high_sentinel)) (\<lambda>query.
              io_bind (contact_loop user query False) (\<lambda>found.
                if found then py_await (reply_text VerifiedOk)
                else py_await (reply_text NoPendingVerification))))"

definition handle_contact :: "tg_user \<Rightarrow> contact \<Rightarrow> unit io" where
  "handle_contact user c =
     try_except (handle_contact_body user c)
       (\<lambda>e. io_bind (logger_error HandleContact e) (\<lambda>_. py_await (reply_text ErrContact)))"

text \<open>\<^verbatim>\<open>help_command\<close>, lines 164 to 178: the \<^verbatim>\<open>except\<close> clause only logs.\<close>

definition help_command_body :: "unit io" where
  "help_command_body = py_await (reply_text HelpText)"

definition help_command :: "unit io" where
  "help_command = try_except help_command_body (\<lambda>e. logger_error HelpCommand e)"

text \<open>The loop of lines 188 to 193, with its \<^verbatim>\<open>break\<close>.\<close>

fun status_scan :: "(string \<times> udoc) list \<Rightarrow> bool" where
  "status_scan [] = False"
| "status_scan ((k, user_data) # docs) =
     (if phoneVerified user_data then True else status_scan docs)"

text \<open>\<^verbatim>\<open>status_command\<close>, lines 180 to 208.\<close>

definition status_command_body :: "tg_user \<Rightarrow> unit io" where
  "status_command_body user =
     io_bind (user_stream (tg_id user)) (\<lambda>query.
       if status_scan query then py_await (reply_text AlreadyVerified)
       else py_await (reply_text NotYetVerified))"

definition status_command :: "tg_user \<Rightarrow> unit io" where
  "status_command user =
     try_except (status_command_body user)
       (\<lambda>e. io_bind (logger_error StatusCommand e) (\<lambda>_. py_await (reply_text ErrStatus)))"

section \<open>Example worlds\<close>

definition alice :: tg_user where
  "alice = \<lparr>tg_id = 42, tg_username = Some ''alice''\<rparr>"

text \<open>One pending code \<^verbatim>\<open>ABC123\<close> for the user \<^verbatim>\<open>u1\<close>; store and transport answer.\<close>

definition pending_code :: world where
  "pending_code =
     \<lparr>telegramVerifications = [(''ABC123'', \<lparr>userId = Some ''u1'', phone = None\<rparr>)],
      users = [(''u1'', \<lparr>phoneVerified = False, telegramUsername = None, telegramId = None\<rparr>)],
      trace = [], script = []\<rparr>"

text \<open>Two pending records with the same phone, for two users.\<close>

definition two_pending :: world where
  "two_pending =
     \<lparr>telegramVerifications =
        [(''CODE1'', \<lparr>userId = Some ''u1'', phone = Some ''15551234567''\<rparr>),
         (''CODE2'', \<lparr>userId = Some ''u2'', phone = Some ''15551234567''\<rparr>)],
      users =
        [(''u1'', \<lparr>phoneVerified = False, telegramUsername = None, telegramId = None\<rparr>),
         (''u2'', \<lparr>phoneVerified = False, telegramUsername = None, telegramId = None\<rparr>)],
      trace = [], script = []\<rparr>"

definition alice_contact :: contact where
  "alice_contact = \<lparr>contact_user_id = Some 42, phone_number = Some ''+15551234567''\<rparr>"

text \<open>A contact card of somebody else (embedded id 7), shared by the requester 42.\<close>

definition stranger_contact :: contact where
  "stranger_contact = \<lparr>contact_user_id = Some 7, phone_number = Some ''+999''\<rparr>"

text \<open>A pending record whose phone is \<^verbatim>\<open>1\<close> followed by the character U+1F600.\<close>

definition emoji_phone :: world where
  "emoji_phone =
     \<lparr>telegramVerifications =
        [(''CODE9'', \<lparr>userId = Some ''u9'',
                     phone = Some (''1'' @ [CHR 0xF0, CHR 0x9F, CHR 0x98, CHR 0x80])\<rparr>)],
      users = [], trace = [], script = []\<rparr>"

text \<open>Two user records linked to the requester 42, the second one verified.\<close>

definition linked_twice :: world where
  "linked_twice =
     \<lparr>telegramVerifications = [],
      users =
        [(''u1'', \<lparr>phoneVerified = False, telegramUsername = Some ''alice'',
                    telegramId = Some 42\<rparr>),
         (''u2'', \<lparr>phoneVerified = True, telegramUsername = Some ''alice'',
                    telegramId = Some 42\<rparr>)],
      trace = [], script = []\<rparr>"


text \<open>A pending record that has a phone and no userId.\<close>

definition orphan_pending :: world where
  "orphan_pending =
     \<lparr>telegramVerifications =
        [(''CODE0'', \<lparr>userId = None, phone = Some ''15551234567''\<rparr>)],
      users = [(''u1'', \<lparr>phoneVerified = False, telegramUsername = None, telegramId = None\<rparr>)],
      trace = [], script = []\<rparr>"

text \<open>An empty store behind a transport whose next two sends fail.\<close>

definition transport_down :: world where
  "transport_down =
     \<lparr>telegramVerifications = [], users = [], trace = [],
      script = [Some NetworkError, Some NetworkError]\<rparr>"

section \<open>The handlers side by side\<close>

text \<open>
  The five handlers have the same shape, a \<^verbatim>\<open>try\<close> block and one \<^verbatim>\<open>except Exception\<close>
  clause that logs and, but for \<^verbatim>\<open>help_command\<close>, replies. The functions below name the
  parts of each, so that one statement can speak about all of them.
\<close>

datatype call =
    CallStart tg_user "string list"
  | CallHandleVerification tg_user string
  | CallHandleContact tg_user contact
  | CallHelpCommand
  | CallStatusCommand tg_user

fun run_handler :: "call \<Rightarrow> unit io" where
  "run_handler (CallStart user args) = start user args"
| "run_handler (CallHandleVerification user code) = handle_verification user code"
| "run_handler (CallHandleContact user c) = handle_contact user c"
| "run_handler CallHelpCommand = help_command"
| "run_handler (CallStatusCommand user) = status_command user"

fun try_block :: "call \<Rightarrow> unit io" where
  "try_block (CallStart user args) = start_body user args"
| "try_block (CallHandleVerification user code) = handle_verification_body user code"
| "try_block (CallHandleContact user c) = handle_contact_body user c"
| "try_block CallHelpCommand = help_command_body"
| "try_block (CallStatusCommand user) = status_command_body user"

fun handler_of :: "call \<Rightarrow> handler" where
  "handler_of (CallStart _ _) = Start"
| "handler_of (CallHandleVerification _ _) = HandleVerification"
| "handler_of (CallHandleContact _ _) = HandleContact"
| "handler_of CallHelpCommand = HelpCommand"
| "handler_of (CallStatusCommand _) = StatusCommand"

text \<open>The text that the \<^verbatim>\<open>except\<close> clause of the handler sends (lines 55, 103, 162, 208).\<close>

fun failure_reply :: "call \<Rightarrow> reply option" where
  "failure_reply (CallStart _ _) = Some ErrStart"
| "failure_reply (CallHandleVerification _ _) = Some ErrVerification"
| "failure_reply (CallHandleContact _ _) = Some ErrContact"
| "failure_reply CallHelpCommand = None"
| "failure_reply (CallStatusCommand _) = Some ErrStatus"

definition except_clause :: "handler \<Rightarrow> reply option \<Rightarrow> exn \<Rightarrow> unit io" where
  "except_clause h r e =
     (case r of
        None \<Rightarrow> logger_error h e
      | Some m \<Rightarrow> io_bind (logger_error h e) (\<lambda>_. py_await (reply_text m)))"

section \<open>What a run leaves as it was\<close>

text \<open>
  \<open>keeps f m\<close>: the computation \<open>m\<close> never changes the observation \<open>f\<close> of the world.
  \<open>frame f\<close>: the observation does not depend on the script, on the user records, or on
  any effect but a success reply.
\<close>

definition keeps :: "(world \<Rightarrow> 'b) \<Rightarrow> 'a io \<Rightarrow> bool" where
  "keeps f m = (\<forall>w. f (snd (m w)) = f w)"

definition frame :: "(world \<Rightarrow> 'b) \<Rightarrow> bool" where
  "frame f =
     ((\<forall>w s. f (w\<lparr>script := s\<rparr>) = f w) \<and>
      (\<forall>w u. f (w\<lparr>users := u\<rparr>) = f w) \<and>
      (\<forall>w ev. ev \<noteq> ReplyText VerifiedOk \<longrightarrow> f (w\<lparr>trace := trace w @ [ev]\<rparr>) = f w))"

definition success_replies :: "world \<Rightarrow> effect list" where
  "success_replies w = filter (\<lambda>ev. ev = ReplyText VerifiedOk) (trace w)"

section \<open>The primitives when store and transport answer\<close>

lemma extern_ok: "script w = [] \<Longrightarrow> extern w = (Inr (), w)"
  by (simp add: extern_def)

lemma reply_ok:
  "script w = [] \<Longrightarrow>
   py_await (reply_text r) w = (Inr (), w\<lparr>trace := trace w @ [ReplyText r]\<rparr>)"
  by (simp add: reply_text_def io_bind_def extern_def emit_def)

lemma length_split_slash:
  "length (split_slash s) = Suc (length (filter (\<lambda>c. c = CHR ''/'') s))"
  by (induction s) (auto split: list.splits)

lemma document_plain:
  "CHR ''/'' \<notin> set collection_id \<Longrightarrow> CHR ''/'' \<notin> set document_id \<Longrightarrow>
   document collection_id document_id = io_return document_id"
proof -
  assume "CHR ''/'' \<notin> set collection_id" "CHR ''/'' \<notin> set document_id"
  then have "filter (\<lambda>c. c = CHR ''/'') collection_id = []"
    and "filter (\<lambda>c. c = CHR ''/'') document_id = []"
    by (auto simp: filter_empty_conv)
  then show ?thesis by (simp add: document_def length_split_slash)
qed

lemma named_doc_plain:
  "CHR ''/'' \<notin> set document_id \<Longrightarrow> named_doc coll document_id = map_of coll document_id"
  by (simp add: named_doc_def)

lemma verification_get_ok:
  "script w = [] \<Longrightarrow> verification_get code w =
     (Inr (named_doc (telegramVerifications w) code),
      w\<lparr>trace := trace w @ [VerificationGet code]\<rparr>)"
  by (simp add: verification_get_def io_bind_def extern_def emit_def)

lemma user_get_ok:
  "script w = [] \<Longrightarrow> user_get key w =
     (Inr (named_doc (users w) key), w\<lparr>trace := trace w @ [UserGet key]\<rparr>)"
  by (simp add: user_get_def io_bind_def extern_def emit_def)

lemma user_update_ok:
  "script w = [] \<Longrightarrow> named_doc (users w) key = Some d \<Longrightarrow> user_update key user w =
     (Inr WriteResult,
      w\<lparr>users := map (\<lambda>(k, d). if k = key then (k, set_verified user d) else (k, d)) (users w),
        trace := trace w @ [UserUpdate key (tg_username user) (tg_id user)]\<rparr>)"
  by (simp add: user_update_def io_bind_def extern_def)

lemma verification_stream_ok:
  "script w = [] \<Longrightarrow> verification_stream lo hi w =
     (Inr (filter (\<lambda>(k, d). phone_between lo hi d) (telegramVerifications w)),
      w\<lparr>trace := trace w @ [VerificationQuery lo hi]\<rparr>)"
  by (simp add: verification_stream_def io_bind_def extern_def emit_def)

lemma user_stream_ok:
  "script w = [] \<Longrightarrow> user_stream i w =
     (Inr (filter (\<lambda>(k, d). telegramId d = Some i) (users w)),
      w\<lparr>trace := trace w @ [UserQuery i]\<rparr>)"
  by (simp add: user_stream_def io_bind_def extern_def emit_def)

text \<open>
  Whatever follows \<^verbatim>\<open>await user_ref.update(...)\<close> is never reached: the update either
  fails, or it has written the fields and the \<^verbatim>\<open>await\<close> of its result raises.
\<close>

lemma await_update_raises:
  "io_bind (user_update key user) (\<lambda>r. io_bind (py_await r) f) =
   io_bind (user_update key user) (\<lambda>r. io_raise TypeError)"
  by (rule ext)
     (auto simp: io_bind_def user_update_def io_raise_def
        split: prod.splits sum.splits option.splits list.splits)

section \<open>Verification by code\<close>

text \<open>
  What a run of \<^verbatim>\<open>handle_verification\<close> does when the record of the code names a user
  that exists and store and transport answer: it reads both documents, writes the three
  fields, logs the \<^verbatim>\<open>TypeError\<close> of line 85 and sends the generic failure text. The
  verification records are as before.
\<close>

lemma handle_verification_with_record:
  assumes "script w = []" "CHR ''/'' \<notin> set code" "CHR ''/'' \<notin> set uid"
    "map_of (telegramVerifications w) code = Some vd"
    "userId vd = Some uid" "uid \<noteq> []" "map_of (users w) uid = Some ud"
  shows "handle_verification user code w =
    (Inr (),
     w\<lparr>users := map (\<lambda>(k, d). if k = uid then (k, set_verified user d) else (k, d)) (users w),
       trace := trace w @
         [VerificationGet code, UserGet uid, UserUpdate uid (tg_username user) (tg_id user),
          LoggedError HandleVerification TypeError, ReplyText ErrVerification]\<rparr>)"
  using assms
  by (simp add: handle_verification_def handle_verification_body_def try_except_def io_bind_def
      document_plain named_doc_plain io_return_def
      verification_get_ok user_get_ok user_update_ok reply_ok io_raise_def is_Exception_def
      logger_error_def emit_def)

text \<open>
  A code with an odd number of \<^verbatim>\<open>/\<close> is refused at line 61: nothing is read, the
  \<^verbatim>\<open>ValueError\<close> is logged and the reply is the generic failure text.
\<close>

lemma handle_verification_refused_path:
  assumes "script w = []" "odd (length (filter (\<lambda>c. c = CHR ''/'') code))"
  shows "handle_verification user code w =
    (Inr (), w\<lparr>trace := trace w @
       [LoggedError HandleVerification ValueError, ReplyText ErrVerification]\<rparr>)"
  using assms
  by (simp add: handle_verification_def handle_verification_body_def try_except_def io_bind_def
      document_def length_split_slash io_raise_def is_Exception_def logger_error_def emit_def
      reply_ok)

text \<open>
  C1. The claim: when the verification record of the submitted code exists with a userId
  and the user record exists, the handler sets the three fields on the user record, then
  deletes the verification record, then sends the success reply. The code at the input
  \<^verbatim>\<open>/start ABC123\<close>: the user record is updated, the \<^verbatim>\<open>await\<close> of line 85 raises
  \<^verbatim>\<open>TypeError\<close>, the handler logs it and replies with the generic failure text; the
  verification record is still in the store and no success reply is sent.
\<close>

theorem handle_verification_stops_after_update:
  "handle_verification alice ''ABC123'' pending_code =
     (Inr (),
      \<lparr>telegramVerifications = [(''ABC123'', \<lparr>userId = Some ''u1'', phone = None\<rparr>)],
       users = [(''u1'', \<lparr>phoneVerified = True, telegramUsername = Some ''alice'',
                          telegramId = Some 42\<rparr>)],
       trace = [VerificationGet ''ABC123'', UserGet ''u1'',
                UserUpdate ''u1'' (Some ''alice'') 42,
                LoggedError HandleVerification TypeError, ReplyText ErrVerification],
       script = []\<rparr>)"
  by (simp add: handle_verification_def handle_verification_body_def try_except_def io_bind_def
      document_plain named_doc_plain io_return_def
      verification_get_ok user_get_ok user_update_ok reply_ok io_raise_def is_Exception_def
      logger_error_def emit_def pending_code_def alice_def set_verified_def)

text \<open>
  C2. The claim: after a successful run, a second run with the same code replies
  "invalid code" and changes nothing. The code, run twice on \<^verbatim>\<open>/start ABC123\<close>: the first
  run leaves the record in the store, so the second run finds it again, writes the user
  record again and ends with the generic failure text, not with "invalid code".
\<close>

theorem verification_code_accepted_twice:
  "snd (handle_verification alice ''ABC123''
          (snd (handle_verification alice ''ABC123'' pending_code))) =
      \<lparr>telegramVerifications = [(''ABC123'', \<lparr>userId = Some ''u1'', phone = None\<rparr>)],
       users = [(''u1'', \<lparr>phoneVerified = True, telegramUsername = Some ''alice'',
                          telegramId = Some 42\<rparr>)],
       trace = [VerificationGet ''ABC123'', UserGet ''u1'',
                UserUpdate ''u1'' (Some ''alice'') 42,
                LoggedError HandleVerification TypeError, ReplyText ErrVerification,
                VerificationGet ''ABC123'', UserGet ''u1'',
                UserUpdate ''u1'' (Some ''alice'') 42,
                LoggedError HandleVerification TypeError, ReplyText ErrVerification],
       script = []\<rparr>"
  by (simp add: handle_verification_def handle_verification_body_def try_except_def io_bind_def
      document_plain named_doc_plain io_return_def
      verification_get_ok user_get_ok user_update_ok reply_ok io_raise_def is_Exception_def
      logger_error_def emit_def pending_code_def alice_def set_verified_def)

section \<open>Verification by contact\<close>

text \<open>
  C5. The claim: a contact whose query matches n records with a userId updates all n
  users, deletes all n records and sends one success reply. The code on a contact that
  matches two pending records of two users: the first user is updated, the \<^verbatim>\<open>await\<close> of
  line 137 raises \<^verbatim>\<open>TypeError\<close> and ends the loop; the second user is not updated, no
  record is deleted, and the reply is the generic failure text.
\<close>

theorem handle_contact_stops_at_first_match:
  "handle_contact alice alice_contact two_pending =
     (Inr (),
      \<lparr>telegramVerifications =
        [(''CODE1'', \<lparr>userId = Some ''u1'', phone = Some ''15551234567''\<rparr>),
         (''CODE2'', \<lparr>userId = Some ''u2'', phone = Some ''15551234567''\<rparr>)],
       users =
        [(''u1'', \<lparr>phoneVerified = True, telegramUsername = Some ''alice'',
                    telegramId = Some 42\<rparr>),
         (''u2'', \<lparr>phoneVerified = False, telegramUsername = None, telegramId = None\<rparr>)],
       trace = [VerificationQuery ''15551234567'' (''15551234567'' @ high_sentinel),
                UserUpdate ''u1'' (Some ''alice'') 42,
                LoggedError HandleContact TypeError, ReplyText ErrContact],
       script = []\<rparr>)"
  by (simp add: handle_contact_def handle_contact_body_def try_except_def io_bind_def
      document_plain named_doc_plain io_return_def
      verification_stream_ok user_update_ok reply_ok io_raise_def is_Exception_def
      logger_error_def emit_def two_pending_def alice_def alice_contact_def set_verified_def
      self_check_fails_def formatted_phone_def phone_between_def high_sentinel_def)

text \<open>
  C3. The claim: a code with no verification record gets the reply "invalid code", and a
  contact whose normalized phone matches no stored record gets the reply "no pending
  verification found", both without any store mutation. Neither reply is sent for every
  such input. The code \<^verbatim>\<open>a/b\<close> has no verification record, but the client refuses it as
  a document path before any read (line 61), and the reply is the generic failure text.
  A contact card with a foreign embedded id is rejected before the handler looks at the
  store, and is answered "share your own contact". The store is as before in both runs.
\<close>

theorem not_found_answered_otherwise:
  "map_of (telegramVerifications pending_code) ''a/b'' = None \<and>
   handle_verification alice ''a/b'' pending_code =
     (Inr (), pending_code\<lparr>trace :=
        [LoggedError HandleVerification ValueError, ReplyText ErrVerification]\<rparr>) \<and>
   filter (\<lambda>(k, d). phone_between (formatted_phone ''+999'')
             (formatted_phone ''+999'' @ high_sentinel) d)
     (telegramVerifications two_pending) = [] \<and>
   handle_contact alice stranger_contact two_pending =
     (Inr (), two_pending\<lparr>trace := [ReplyText ShareOwnContact]\<rparr>)"
  by (simp add: handle_verification_def handle_verification_body_def
      handle_contact_def handle_contact_body_def try_except_def reply_ok
      io_bind_def document_def length_split_slash io_raise_def is_Exception_def
      logger_error_def emit_def pending_code_def
      two_pending_def alice_def stranger_contact_def self_check_fails_def
      formatted_phone_def phone_between_def high_sentinel_def)

text \<open>
  C3, amended: a code that contains no \<^verbatim>\<open>/\<close> and has no verification record is answered
  "invalid code"; a contact that passes the self-contact check, carries a phone number and
  matches no stored record is answered "no pending verification found". In both runs the
  only effects are the read and the reply: the two collections are as before.
\<close>

theorem not_found_leaves_store_unchanged:
  "(script w = [] \<and> CHR ''/'' \<notin> set code \<and>
    map_of (telegramVerifications w) code = None \<longrightarrow>
      handle_verification user code w =
        (Inr (), w\<lparr>trace := trace w @ [VerificationGet code, ReplyText InvalidCode]\<rparr>)) \<and>
   (script w = [] \<and> \<not> self_check_fails user c \<and> phone_number c = Some p \<and> p \<noteq> [] \<and>
    filter (\<lambda>(k, d). phone_between (formatted_phone p) (formatted_phone p @ high_sentinel) d)
      (telegramVerifications w) = [] \<longrightarrow>
      handle_contact user c w =
        (Inr (), w\<lparr>trace := trace w @
           [VerificationQuery (formatted_phone p) (formatted_phone p @ high_sentinel),
            ReplyText NoPendingVerification]\<rparr>))"
  by (simp add: handle_verification_def handle_verification_body_def handle_contact_def
      handle_contact_body_def try_except_def io_bind_def verification_get_ok
      document_plain named_doc_plain verification_stream_ok reply_ok io_return_def)

theorem not_found_leaves_store_unchanged_witness:
  "handle_verification alice ''NOPE'' pending_code =
     (Inr (), pending_code\<lparr>trace := [VerificationGet ''NOPE'', ReplyText InvalidCode]\<rparr>) \<and>
   handle_contact alice \<lparr>contact_user_id = Some 42, phone_number = Some ''+999''\<rparr> two_pending =
     (Inr (), two_pending\<lparr>trace :=
        [VerificationQuery ''999'' (''999'' @ high_sentinel), ReplyText NoPendingVerification]\<rparr>)"
  using not_found_leaves_store_unchanged [where w = pending_code and code = "''NOPE''"
      and user = alice]
    not_found_leaves_store_unchanged [where w = two_pending and user = alice
      and c = "\<lparr>contact_user_id = Some 42, phone_number = Some ''+999''\<rparr>" and p = "''+999''"]
  by (simp add: pending_code_def two_pending_def alice_def self_check_fails_def
      formatted_phone_def phone_between_def high_sentinel_def)

section \<open>The phone range query\<close>

lemma str_le_between_prefix:
  "(str_le p q \<and> str_le q (p @ s)) = (prefix p q \<and> str_le (drop (length p) q) s)"
proof (induction p arbitrary: q)
  case Nil
  then show ?case by simp
next
  case (Cons a p)
  show ?case
  proof (cases q)
    case Nil
    then show ?thesis by simp
  next
    case (Cons b q')
    then show ?thesis using Cons.IH [of q'] by auto
  qed
qed

lemma str_le_below_sentinel:
  "\<forall>c \<in> set r. (of_char c :: nat) < 239 \<Longrightarrow> str_le r high_sentinel"
  by (cases r) (auto simp: high_sentinel_def)

text \<open>
  C4. The claim: the query of the contact handler selects exactly the records whose phone
  field has the normalized phone as a literal prefix. A record whose phone continues the
  prefix with a character above the sentinel U+F8FF is not selected.
\<close>

theorem prefix_record_outside_query:
  "prefix ''1'' (''1'' @ [CHR 0xF0, CHR 0x9F, CHR 0x98, CHR 0x80]) \<and>
   fst (verification_stream ''1'' (''1'' @ high_sentinel) emoji_phone) = Inr []"
  by (simp add: verification_stream_ok emoji_phone_def phone_between_def high_sentinel_def)

text \<open>
  C4, amended: the query selects exactly the records whose phone field has the normalized
  phone \<open>p\<close> as a literal prefix and continues it with a rest that is at most the
  sentinel in byte order; every other record is left out, whatever number it denotes.
  Where every byte of the stored phones is below \<^verbatim>\<open>0xEF\<close> (any ASCII phone), these are
  exactly the records with \<open>p\<close> as a literal prefix. The loop of \<^verbatim>\<open>handle_contact\<close> runs
  over exactly the selected records, with \<open>p\<close> the normalized phone of the contact.
\<close>

theorem contact_query_selects:
  "(script w = [] \<longrightarrow>
      fst (verification_stream p (p @ high_sentinel) w) =
        Inr (filter (\<lambda>(k, d). case phone d of None \<Rightarrow> False
                      | Some q \<Rightarrow> prefix p q \<and> str_le (drop (length p) q) high_sentinel)
               (telegramVerifications w))) \<and>
   (script w = [] \<and>
    (\<forall>(k, d) \<in> set (telegramVerifications w). \<forall>q. phone d = Some q \<longrightarrow>
        (\<forall>c \<in> set q. (of_char c :: nat) < 239)) \<longrightarrow>
      fst (verification_stream p (p @ high_sentinel) w) =
        Inr (filter (\<lambda>(k, d). case phone d of None \<Rightarrow> False | Some q \<Rightarrow> prefix p q)
               (telegramVerifications w))) \<and>
   (script w = [] \<and> \<not> self_check_fails user c \<and> phone_number c = Some ph \<and> ph \<noteq> [] \<and>
    p = formatted_phone ph \<longrightarrow>
      handle_contact_body user c w =
        io_bind
          (contact_loop user
             (filter (\<lambda>(k, d). case phone d of None \<Rightarrow> False
                       | Some q \<Rightarrow> prefix p q \<and> str_le (drop (length p) q) high_sentinel)
                (telegramVerifications w)) False)
          (\<lambda>found. if found then py_await (reply_text VerifiedOk)
                    else py_await (reply_text NoPendingVerification))
          (w\<lparr>trace := trace w @ [VerificationQuery p (p @ high_sentinel)]\<rparr>))"
proof -
  have between: "phone_between p (p @ high_sentinel) d =
      (case phone d of None \<Rightarrow> False
       | Some q \<Rightarrow> prefix p q \<and> str_le (drop (length p) q) high_sentinel)" for d
    by (simp add: phone_between_def str_le_between_prefix split: option.splits)
  have low: "phone_between p (p @ high_sentinel) d =
      (case phone d of None \<Rightarrow> False | Some q \<Rightarrow> prefix p q)"
    if "\<forall>q. phone d = Some q \<longrightarrow> (\<forall>c \<in> set q. (of_char c :: nat) < 239)" for d
  proof (cases "phone d")
    case None
    then show ?thesis by (simp add: phone_between_def)
  next
    case (Some q)
    with that have "\<forall>c \<in> set (drop (length p) q). (of_char c :: nat) < 239"
      by (auto dest: in_set_dropD)
    then have "str_le (drop (length p) q) high_sentinel"
      by (rule str_le_below_sentinel)
    with Some show ?thesis by (simp add: between)
  qed
  have first: "script w = [] \<longrightarrow>
      fst (verification_stream p (p @ high_sentinel) w) =
        Inr (filter (\<lambda>(k, d). case phone d of None \<Rightarrow> False
                      | Some q \<Rightarrow> prefix p q \<and> str_le (drop (length p) q) high_sentinel)
               (telegramVerifications w))"
    by (simp add: verification_stream_ok between)
  have second: "script w = [] \<and>
    (\<forall>(k, d) \<in> set (telegramVerifications w). \<forall>q. phone d = Some q \<longrightarrow>
        (\<forall>c \<in> set q. (of_char c :: nat) < 239)) \<longrightarrow>
      fst (verification_stream p (p @ high_sentinel) w) =
        Inr (filter (\<lambda>(k, d). case phone d of None \<Rightarrow> False | Some q \<Rightarrow> prefix p q)
               (telegramVerifications w))"
  proof
    assume a: "script w = [] \<and>
      (\<forall>(k, d) \<in> set (telegramVerifications w). \<forall>q. phone d = Some q \<longrightarrow>
        (\<forall>c \<in> set q. (of_char c :: nat) < 239))"
    then have "filter (\<lambda>(k, d). phone_between p (p @ high_sentinel) d) (telegramVerifications w)
        = filter (\<lambda>(k, d). case phone d of None \<Rightarrow> False | Some q \<Rightarrow> prefix p q)
            (telegramVerifications w)"
      by (intro filter_cong refl) (auto simp: low)
    with a show "fst (verification_stream p (p @ high_sentinel) w) =
        Inr (filter (\<lambda>(k, d). case phone d of None \<Rightarrow> False | Some q \<Rightarrow> prefix p q)
               (telegramVerifications w))"
      by (simp add: verification_stream_ok)
  qed
  have third: "script w = [] \<and> \<not> self_check_fails user c \<and> phone_number c = Some ph \<and>
    ph \<noteq> [] \<and> p = formatted_phone ph \<longrightarrow>
      handle_contact_body user c w =
        io_bind
          (contact_loop user
             (filter (\<lambda>(k, d). case phone d of None \<Rightarrow> False
                       | Some q \<Rightarrow> prefix p q \<and> str_le (drop (length p) q) high_sentinel)
                (telegramVerifications w)) False)
          (\<lambda>found. if found then py_await (reply_text VerifiedOk)
                    else py_await (reply_text NoPendingVerification))
          (w\<lparr>trace := trace w @ [VerificationQuery p (p @ high_sentinel)]\<rparr>)"
  proof (intro impI)
    assume h: "script w = [] \<and> \<not> self_check_fails user c \<and> phone_number c = Some ph \<and>
      ph \<noteq> [] \<and> p = formatted_phone ph"
    then have fp: "formatted_phone ph = p"
      and run: "script w = []" "\<not> self_check_fails user c" "phone_number c = Some ph" "ph \<noteq> []"
      by simp_all
    show "handle_contact_body user c w =
        io_bind
          (contact_loop user
             (filter (\<lambda>(k, d). case phone d of None \<Rightarrow> False
                       | Some q \<Rightarrow> prefix p q \<and> str_le (drop (length p) q) high_sentinel)
                (telegramVerifications w)) False)
          (\<lambda>found. if found then py_await (reply_text VerifiedOk)
                    else py_await (reply_text NoPendingVerification))
          (w\<lparr>trace := trace w @ [VerificationQuery p (p @ high_sentinel)]\<rparr>)"
      using run
      by (simp add: handle_contact_body_def io_bind_def [of "verification_stream _ _"]
          verification_stream_ok fp between)
  qed
  from first second third show ?thesis by blast
qed

theorem contact_query_selects_witness:
  "fst (verification_stream ''1555'' (''1555'' @ high_sentinel) two_pending) =
     Inr (telegramVerifications two_pending) \<and>
   fst (verification_stream ''1'' (''1'' @ high_sentinel) emoji_phone) = Inr [] \<and>
   handle_contact_body alice alice_contact two_pending =
     io_bind (contact_loop alice (telegramVerifications two_pending) False)
       (\<lambda>found. if found then py_await (reply_text VerifiedOk)
                 else py_await (reply_text NoPendingVerification))
       (two_pending\<lparr>trace :=
          [VerificationQuery ''15551234567'' (''15551234567'' @ high_sentinel)]\<rparr>)"
  using contact_query_selects [where w = two_pending and p = "''1555''"]
    contact_query_selects [where w = emoji_phone and p = "''1''"]
    contact_query_selects [where w = two_pending and p = "''15551234567''" and user = alice
      and c = alice_contact and ph = "''+15551234567''"]
  by (simp add: two_pending_def emoji_phone_def high_sentinel_def alice_contact_def alice_def
      self_check_fails_def formatted_phone_def)

section \<open>The self-contact check\<close>




section \<open>The status check\<close>

lemma status_scan_any: "status_scan docs = (\<exists>(k, d) \<in> set docs. phoneVerified d)"
  by (induction docs rule: status_scan.induct) auto

text \<open>
  C7. The claim: when the requester's id matches several user records, only the first one
  in iteration order decides the reply. The loop of lines 189 to 193 goes on until it
  meets a verified record: with an unverified record first and a verified one second the
  reply is "already verified".
\<close>

theorem status_looks_past_first_record:
  "hd (filter (\<lambda>(k, d). telegramId d = Some (tg_id alice)) (users linked_twice)) =
     (''u1'', \<lparr>phoneVerified = False, telegramUsername = Some ''alice'',
               telegramId = Some 42\<rparr>) \<and>
   status_command alice linked_twice =
     (Inr (), linked_twice\<lparr>trace := [UserQuery 42, ReplyText AlreadyVerified]\<rparr>)"
  by (simp add: status_command_def status_command_body_def try_except_def io_bind_def
      user_stream_ok reply_ok linked_twice_def alice_def)

text \<open>
  C7, amended: the reply is "already verified" when some user record linked to the
  requester's id has \<^verbatim>\<open>phoneVerified\<close> set, whichever place it has in the iteration, and
  "not yet verified" otherwise, also when no record is linked; nothing is written.
\<close>

theorem status_reports_any_verified:
  "script w = [] \<Longrightarrow>
   status_command user w =
     (Inr (), w\<lparr>trace := trace w @
        [UserQuery (tg_id user),
         ReplyText (if \<exists>(k, d) \<in> set (users w).
                         telegramId d = Some (tg_id user) \<and> phoneVerified d
                    then AlreadyVerified else NotYetVerified)]\<rparr>)"
  by (auto simp: status_command_def status_command_body_def try_except_def io_bind_def
      user_stream_ok reply_ok status_scan_any)

theorem status_reports_any_verified_witness:
  "status_command alice linked_twice =
     (Inr (), linked_twice\<lparr>trace := [UserQuery 42, ReplyText AlreadyVerified]\<rparr>) \<and>
   status_command alice pending_code =
     (Inr (), pending_code\<lparr>trace := [UserQuery 42, ReplyText NotYetVerified]\<rparr>)"
  using status_reports_any_verified [of linked_twice alice]
    status_reports_any_verified [of pending_code alice]
  by (simp add: linked_twice_def pending_code_def alice_def)

section \<open>Phone normalization\<close>

text \<open>
  C9. The claim: the normalized phone is the phone with one leading \<^verbatim>\<open>+\<close> removed.
  \<^verbatim>\<open>lstrip('+')\<close> removes every leading \<^verbatim>\<open>+\<close>: of \<^verbatim>\<open>++1555\<close> it leaves \<^verbatim>\<open>1555\<close>.
\<close>

theorem formatted_phone_double_plus:
  "prefix ''+'' ''++1555'' \<and> formatted_phone ''++1555'' = ''1555'' \<and>
   formatted_phone ''++1555'' \<noteq> tl ''++1555''"
  by (simp add: formatted_phone_def)

text \<open>
  C9, amended: the normalized phone is the phone without its whole run of leading \<^verbatim>\<open>+\<close>
  characters, so it never starts with \<^verbatim>\<open>+\<close>; it is the phone itself when that does not
  start with \<^verbatim>\<open>+\<close>, and the phone without its first character when it starts with
  exactly one \<^verbatim>\<open>+\<close>.
\<close>

theorem formatted_phone_strips_all_plus:
  "(\<exists>n. p = replicate n CHR ''+'' @ formatted_phone p) \<and>
   \<not> prefix ''+'' (formatted_phone p) \<and>
   (\<not> prefix ''+'' p \<longrightarrow> formatted_phone p = p) \<and>
   (prefix ''+'' p \<and> \<not> prefix ''++'' p \<longrightarrow> formatted_phone p = tl p)"
proof -
  have a: "\<exists>n. p = replicate n CHR ''+'' @ formatted_phone p"
  proof (induction p)
    case Nil
    then show ?case by (simp add: formatted_phone_def)
  next
    case (Cons c p)
    then obtain n where n: "p = replicate n CHR ''+'' @ formatted_phone p" by blast
    show ?case
    proof (cases "c = CHR ''+''")
      case True
      then have "c # p = replicate (Suc n) CHR ''+'' @ formatted_phone (c # p)"
        using n by (simp add: formatted_phone_def)
      then show ?thesis by blast
    next
      case False
      then have "c # p = replicate 0 CHR ''+'' @ formatted_phone (c # p)"
        by (simp add: formatted_phone_def)
      then show ?thesis by blast
    qed
  qed
  have b: "\<not> prefix ''+'' (formatted_phone p)"
    by (induction p) (auto simp: formatted_phone_def)
  have c: "\<not> prefix ''+'' p \<longrightarrow> formatted_phone p = p"
    by (cases p) (auto simp: formatted_phone_def)
  have d: "prefix ''+'' p \<and> \<not> prefix ''++'' p \<longrightarrow> formatted_phone p = tl p"
  proof (cases p)
    case Nil
    then show ?thesis by simp
  next
    case (Cons x q)
    then show ?thesis by (cases q) (auto simp: formatted_phone_def)
  qed
  from a b c d show ?thesis by blast
qed

theorem formatted_phone_strips_all_plus_witness:
  "formatted_phone ''+15551234567'' = ''15551234567'' \<and>
   formatted_phone ''15551234567'' = ''15551234567''"
  using formatted_phone_strips_all_plus [of "''+15551234567''"]
    formatted_phone_strips_all_plus [of "''15551234567''"]
  by (simp add: formatted_phone_def)

section \<open>No run removes a verification record or sends the success reply\<close>

lemma frame_verifications: "frame telegramVerifications"
  by (simp add: frame_def)

lemma frame_success_replies: "frame success_replies"
  by (simp add: frame_def success_replies_def)

lemma keepsD: "keeps f m \<Longrightarrow> f (snd (m w)) = f w"
  by (simp add: keeps_def)

lemma keeps_return: "keeps f (io_return x)"
  by (simp add: keeps_def io_return_def)

lemma keeps_raise: "keeps f (io_raise e)"
  by (simp add: keeps_def io_raise_def)

lemma keeps_bind_result:
  assumes m: "keeps f m"
    and res: "\<And>w x w'. m w = (Inr x, w') \<Longrightarrow> P x"
    and g: "\<And>x. P x \<Longrightarrow> keeps f (g x)"
  shows "keeps f (io_bind m g)"
  unfolding keeps_def
proof
  fix w
  obtain r w' where mw: "m w = (r, w')" by (cases "m w")
  have fw': "f w' = f w" using keepsD [OF m, of w] mw by simp
  show "f (snd (io_bind m g w)) = f w"
  proof (cases r)
    case (Inl e)
    with mw fw' show ?thesis by (simp add: io_bind_def)
  next
    case (Inr x)
    with mw have "P x" by (auto intro: res)
    then have "f (snd (g x w')) = f w'" by (intro keepsD g)
    with mw Inr fw' show ?thesis by (simp add: io_bind_def)
  qed
qed

lemma keeps_bind:
  "keeps f m \<Longrightarrow> (\<And>x. keeps f (g x)) \<Longrightarrow> keeps f (io_bind m g)"
  by (rule keeps_bind_result [where P = "\<lambda>_. True"]) simp_all

lemma keeps_try_except:
  assumes b: "keeps f body" and h: "\<And>e. keeps f (except e)"
  shows "keeps f (try_except body except)"
  unfolding keeps_def
proof
  fix w
  obtain r w' where bw: "body w = (r, w')" by (cases "body w")
  have fw': "f w' = f w" using keepsD [OF b, of w] bw by simp
  show "f (snd (try_except body except w)) = f w"
  proof (cases r)
    case (Inl e)
    with bw fw' keepsD [OF h, of e w'] show ?thesis by (simp add: try_except_def)
  next
    case (Inr x)
    with bw fw' show ?thesis by (simp add: try_except_def)
  qed
qed

lemma keeps_document: "keeps f (document collection_id document_id)"
  by (simp add: document_def keeps_return keeps_raise)

lemma keeps_extern: "frame f \<Longrightarrow> keeps f extern"
  by (auto simp: keeps_def frame_def extern_def split: list.splits option.splits)

lemma keeps_emit: "frame f \<Longrightarrow> ev \<noteq> ReplyText VerifiedOk \<Longrightarrow> keeps f (emit ev)"
  by (simp add: keeps_def frame_def emit_def)

lemma keeps_reply:
  "frame f \<Longrightarrow> r \<noteq> VerifiedOk \<Longrightarrow> keeps f (py_await (reply_text r))"
  by (simp add: reply_text_def keeps_bind keeps_extern keeps_emit)

lemma keeps_logger_error: "frame f \<Longrightarrow> keeps f (logger_error h e)"
  by (simp add: logger_error_def keeps_emit)

lemma keeps_verification_get: "frame f \<Longrightarrow> keeps f (verification_get code)"
  unfolding verification_get_def
  by (intro keeps_bind keeps_extern keeps_emit) (simp_all add: keeps_def)

lemma keeps_user_get: "frame f \<Longrightarrow> keeps f (user_get key)"
  unfolding user_get_def
  by (intro keeps_bind keeps_extern keeps_emit) (simp_all add: keeps_def)

lemma keeps_verification_stream: "frame f \<Longrightarrow> keeps f (verification_stream lo hi)"
  unfolding verification_stream_def
  by (intro keeps_bind keeps_extern keeps_emit) (simp_all add: keeps_def)

lemma keeps_user_stream: "frame f \<Longrightarrow> keeps f (user_stream i)"
  unfolding user_stream_def
  by (intro keeps_bind keeps_extern keeps_emit) (simp_all add: keeps_def)

lemma frame_update:
  "frame f \<Longrightarrow> ev \<noteq> ReplyText VerifiedOk \<Longrightarrow> f (w\<lparr>users := u, trace := trace w @ [ev]\<rparr>) = f w"
proof -
  assume fr: "frame f" and ev: "ev \<noteq> ReplyText VerifiedOk"
  have "f ((w\<lparr>users := u\<rparr>)\<lparr>trace := trace (w\<lparr>users := u\<rparr>) @ [ev]\<rparr>) = f (w\<lparr>users := u\<rparr>)"
    using fr ev unfolding frame_def by blast
  also have "\<dots> = f w" using fr unfolding frame_def by blast
  finally show ?thesis by simp
qed

lemma keeps_user_update: "frame f \<Longrightarrow> keeps f (user_update key user)"
  unfolding user_update_def
  by (intro keeps_bind keeps_extern) (simp_all add: keeps_def frame_update split: option.splits)

lemma keeps_update_await:
  "frame f \<Longrightarrow> keeps f (io_bind (user_update key user) (\<lambda>r. io_bind (py_await r) g))"
  unfolding await_update_raises
  by (intro keeps_bind keeps_user_update keeps_raise)

lemma keeps_contact_loop: "frame f \<Longrightarrow> keeps f (contact_loop user docs found)"
proof (induction user docs found rule: contact_loop.induct)
  case (1 user found)
  then show ?case by (simp add: keeps_return)
next
  case (2 user code verification_data docs found)
  have step: "keeps f (io_bind (document ''users'' uid) (\<lambda>user_ref.
      io_bind (user_update user_ref user) (\<lambda>r. io_bind (py_await r) g)))" for uid g
    using "2.prems" by (intro keeps_bind keeps_document keeps_update_await)
  from 2 show ?case
    by (simp add: step split: option.splits)
qed

lemma contact_loop_found:
  "contact_loop user docs found w = (Inr b, w') \<Longrightarrow> b = found"
proof (induction user docs found arbitrary: w rule: contact_loop.induct)
  case (1 user found)
  then show ?case by (simp add: io_return_def)
next
  case (2 user code verification_data docs found)
  have raises: "io_bind (document ''users'' uid)
      (\<lambda>user_ref. io_bind (user_update user_ref user) (\<lambda>r. io_raise TypeError)) w
      \<noteq> (Inr b, w')" for uid
    by (auto simp: io_bind_def io_raise_def split: prod.splits sum.splits)
  from 2 show ?case
    by (auto simp: await_update_raises raises split: option.splits if_splits)
qed

lemma keeps_contact_reply:
  "frame f \<Longrightarrow>
   keeps f (io_bind (contact_loop user query False) (\<lambda>found.
      if found then py_await (reply_text VerifiedOk)
      else py_await (reply_text NoPendingVerification)))"
proof (rule keeps_bind_result [where P = "\<lambda>b. b = False"])
  show "frame f \<Longrightarrow> keeps f (contact_loop user query False)"
    by (rule keeps_contact_loop)
  show "\<And>w x w'. contact_loop user query False w = (Inr x, w') \<Longrightarrow> x = False"
    by (rule contact_loop_found)
  show "\<And>x. frame f \<Longrightarrow> x = False \<Longrightarrow>
      keeps f (if x then py_await (reply_text VerifiedOk)
               else py_await (reply_text NoPendingVerification))"
    by (simp add: keeps_reply)
qed

lemma keeps_contact_query:
  "frame f \<Longrightarrow>
   keeps f (io_bind (verification_stream lo hi) (\<lambda>query.
            io_bind (contact_loop user query False) (\<lambda>found.
              if found then py_await (reply_text VerifiedOk)
              else py_await (reply_text NoPendingVerification))))"
  by (rule keeps_bind) (simp_all add: keeps_verification_stream keeps_contact_reply)

lemma keeps_handle_contact_body: "frame f \<Longrightarrow> keeps f (handle_contact_body user c)"
  unfolding handle_contact_body_def
  by (simp add: keeps_reply keeps_contact_query split: option.splits)

lemma keeps_handle_contact: "frame f \<Longrightarrow> keeps f (handle_contact user c)"
  unfolding handle_contact_def
  by (intro keeps_try_except keeps_bind keeps_logger_error keeps_reply
      keeps_handle_contact_body) simp_all

lemma keeps_handle_verification: "frame f \<Longrightarrow> keeps f (handle_verification user code)"
  unfolding handle_verification_def handle_verification_body_def
  by (auto simp: keeps_reply keeps_update_await split: option.splits
      intro!: keeps_try_except keeps_bind keeps_logger_error keeps_reply keeps_verification_get
        keeps_user_get keeps_document)

text \<open>
  The general form of what C1, C2 and C5 meet: in every world, whatever the store and the
  transport do, neither handler changes the collection of verification records, and
  neither sends the success reply.
\<close>

lemma handle_verification_keeps_records:
  "telegramVerifications (snd (handle_verification user code w)) = telegramVerifications w"
  by (rule keepsD [OF keeps_handle_verification [OF frame_verifications]])

lemma handle_verification_never_succeeds:
  "success_replies (snd (handle_verification user code w)) = success_replies w"
  by (rule keepsD [OF keeps_handle_verification [OF frame_success_replies]])

lemma handle_contact_keeps_records:
  "telegramVerifications (snd (handle_contact user c w)) = telegramVerifications w"
  by (rule keepsD [OF keeps_handle_contact [OF frame_verifications]])

lemma handle_contact_never_succeeds:
  "success_replies (snd (handle_contact user c w)) = success_replies w"
  by (rule keepsD [OF keeps_handle_contact [OF frame_success_replies]])

section \<open>Records without a userId\<close>

lemma contact_loop_skips:
  "contact_loop user docs found =
   contact_loop user (filter (\<lambda>(k, d). userId d \<noteq> None) docs) found"
  by (induction user docs found rule: contact_loop.induct) (auto split: option.splits)

lemma contact_loop_all_absent:
  "\<forall>(k, d) \<in> set docs. userId d = None \<Longrightarrow> contact_loop user docs found = io_return found"
  by (induction user docs found rule: contact_loop.induct) auto


text \<open>
  C10. The claim: in the contact handler a matching record without a userId is skipped,
  no user record is updated for it, it is not deleted, so it remains in the store and
  stays redeemable, and it does not count toward the success reply. The record remains,
  but nothing can redeem it: \<^verbatim>\<open>handle_verification\<close> answers its code with "invalid
  verification data" (lines 72 to 74) and \<^verbatim>\<open>handle_contact\<close> skips it again, and
  neither run changes a user record.
\<close>

theorem record_without_user_id_not_redeemable:
  "handle_verification alice ''CODE0'' orphan_pending =
     (Inr (), orphan_pending\<lparr>trace := [VerificationGet ''CODE0'', ReplyText InvalidData]\<rparr>) \<and>
   handle_contact alice alice_contact orphan_pending =
     (Inr (), orphan_pending\<lparr>trace :=
        [VerificationQuery ''15551234567'' (''15551234567'' @ high_sentinel),
         ReplyText NoPendingVerification]\<rparr>)"
  by (simp add: handle_verification_def handle_verification_body_def handle_contact_def
      handle_contact_body_def try_except_def io_bind_def document_plain named_doc_plain
      io_return_def verification_get_ok verification_stream_ok reply_ok
      orphan_pending_def alice_def alice_contact_def self_check_fails_def
      formatted_phone_def phone_between_def high_sentinel_def)

text \<open>
  C10, amended: in the contact handler a matching record without a userId is skipped: the
  loop runs as if the record were not in the query result (no user record is written for
  it, it is not deleted, the flag \<open>found\<close> is not set); after the run the record is still
  in the store; when no matching record has a userId the reply is "no pending
  verification found", not the success text; and the record is not redeemable by its
  code either, which \<^verbatim>\<open>handle_verification\<close> answers with "invalid verification data",
  changing nothing.
\<close>

theorem absent_user_id_skipped:
  "contact_loop user docs found =
     contact_loop user (filter (\<lambda>(k, d). userId d \<noteq> None) docs) found \<and>
   ((code, vd) \<in> set (telegramVerifications w) \<and> userId vd = None \<longrightarrow>
      (code, vd) \<in> set (telegramVerifications (snd (handle_contact user c w)))) \<and>
   (script w = [] \<and> \<not> self_check_fails user c \<and> phone_number c = Some p \<and> p \<noteq> [] \<and>
    (\<forall>(k, d) \<in> set (telegramVerifications w).
        phone_between (formatted_phone p) (formatted_phone p @ high_sentinel) d \<longrightarrow>
        userId d = None) \<longrightarrow>
      handle_contact user c w =
        (Inr (), w\<lparr>trace := trace w @
           [VerificationQuery (formatted_phone p) (formatted_phone p @ high_sentinel),
            ReplyText NoPendingVerification]\<rparr>)) \<and>
   (script w = [] \<and> CHR ''/'' \<notin> set code \<and>
    map_of (telegramVerifications w) code = Some vd \<and> userId vd = None \<longrightarrow>
      handle_verification user code w =
        (Inr (), w\<lparr>trace := trace w @ [VerificationGet code, ReplyText InvalidData]\<rparr>))"
proof -
  have a: "contact_loop user docs found =
     contact_loop user (filter (\<lambda>(k, d). userId d \<noteq> None) docs) found"
    by (rule contact_loop_skips)
  have b: "(code, vd) \<in> set (telegramVerifications w) \<and> userId vd = None \<longrightarrow>
      (code, vd) \<in> set (telegramVerifications (snd (handle_contact user c w)))"
    using keepsD [OF keeps_handle_contact [OF frame_verifications], of user c w] by simp
  have c: "script w = [] \<and> \<not> self_check_fails user c \<and> phone_number c = Some p \<and> p \<noteq> [] \<and>
    (\<forall>(k, d) \<in> set (telegramVerifications w).
        phone_between (formatted_phone p) (formatted_phone p @ high_sentinel) d \<longrightarrow>
        userId d = None) \<longrightarrow>
      handle_contact user c w =
        (Inr (), w\<lparr>trace := trace w @
           [VerificationQuery (formatted_phone p) (formatted_phone p @ high_sentinel),
            ReplyText NoPendingVerification]\<rparr>)"
  proof
    assume h: "script w = [] \<and> \<not> self_check_fails user c \<and> phone_number c = Some p \<and> p \<noteq> [] \<and>
      (\<forall>(k, d) \<in> set (telegramVerifications w).
        phone_between (formatted_phone p) (formatted_phone p @ high_sentinel) d \<longrightarrow>
        userId d = None)"
    let ?q = "filter (\<lambda>(k, d). phone_between (formatted_phone p)
                 (formatted_phone p @ high_sentinel) d) (telegramVerifications w)"
    from h have "\<forall>(k, d) \<in> set ?q. userId d = None" by auto
    then have loop: "contact_loop user ?q False = io_return False"
      by (rule contact_loop_all_absent)
    from h show "handle_contact user c w =
        (Inr (), w\<lparr>trace := trace w @
           [VerificationQuery (formatted_phone p) (formatted_phone p @ high_sentinel),
            ReplyText NoPendingVerification]\<rparr>)"
      by (simp add: handle_contact_def handle_contact_body_def try_except_def io_bind_def
          verification_stream_ok loop reply_ok io_return_def)
  qed
  have d: "script w = [] \<and> CHR ''/'' \<notin> set code \<and>
    map_of (telegramVerifications w) code = Some vd \<and> userId vd = None \<longrightarrow>
      handle_verification user code w =
        (Inr (), w\<lparr>trace := trace w @ [VerificationGet code, ReplyText InvalidData]\<rparr>)"
    by (simp add: handle_verification_def handle_verification_body_def try_except_def
        io_bind_def document_plain named_doc_plain io_return_def verification_get_ok reply_ok)
  from a b c d show ?thesis by blast
qed

theorem absent_user_id_skipped_witness:
  "contact_loop alice
      [(''CODE0'', \<lparr>userId = None, phone = Some ''15551234567''\<rparr>),
       (''CODE1'', \<lparr>userId = Some ''u1'', phone = Some ''15551234567''\<rparr>)] False =
   contact_loop alice
      [(''CODE1'', \<lparr>userId = Some ''u1'', phone = Some ''15551234567''\<rparr>)] False \<and>
   (''CODE0'', \<lparr>userId = None, phone = Some ''15551234567''\<rparr>)
      \<in> set (telegramVerifications (snd (handle_contact alice alice_contact orphan_pending))) \<and>
   handle_contact alice alice_contact orphan_pending =
     (Inr (), orphan_pending\<lparr>trace :=
        [VerificationQuery ''15551234567'' (''15551234567'' @ high_sentinel),
         ReplyText NoPendingVerification]\<rparr>) \<and>
   handle_verification alice ''CODE0'' orphan_pending =
     (Inr (), orphan_pending\<lparr>trace := [VerificationGet ''CODE0'', ReplyText InvalidData]\<rparr>)"
  using absent_user_id_skipped [where user = alice and found = False and w = orphan_pending
      and code = "''CODE0''" and vd = "\<lparr>userId = None, phone = Some ''15551234567''\<rparr>"
      and c = alice_contact and p = "''+15551234567''"
      and docs = "[(''CODE0'', \<lparr>userId = None, phone = Some ''15551234567''\<rparr>),
       (''CODE1'', \<lparr>userId = Some ''u1'', phone = Some ''15551234567''\<rparr>)]"]
  by (simp add: orphan_pending_def alice_def alice_contact_def self_check_fails_def
      formatted_phone_def phone_between_def high_sentinel_def)

section \<open>The handler boundary\<close>

lemma run_handler_try_except:
  "run_handler q = try_except (try_block q) (except_clause (handler_of q) (failure_reply q))"
  by (cases q)
     (simp_all add: except_clause_def [abs_def] start_def handle_verification_def handle_contact_def
        help_command_def status_command_def)

lemma except_clause_reply_sent:
  "extern w1 = (Inr (), w2) \<Longrightarrow>
   except_clause h (Some m) e w1 =
     (Inr (), w2\<lparr>trace := trace w1 @ [LoggedError h e, ReplyText m]\<rparr>)"
  by (auto simp: except_clause_def io_bind_def logger_error_def emit_def reply_text_def
      extern_def split: list.splits option.splits)

lemma except_clause_raises:
  "except_clause h r e w1 = (Inl e', w') \<Longrightarrow> r \<noteq> None \<and> fst (extern w1) = Inl e'"
  by (auto simp: except_clause_def io_bind_def logger_error_def emit_def reply_text_def
      extern_def split: list.splits option.splits)

lemma except_clause_logs:
  "LoggedError h e \<in> set (trace (snd (except_clause h r e w1)))"
  by (auto simp: except_clause_def io_bind_def logger_error_def emit_def reply_text_def
      extern_def split: list.splits option.splits)


text \<open>
  C8. The claim: in every handler, every exception is caught at the handler boundary,
  logged, and turned into a generic failure reply, and never leaves the handler. With the
  transport down, \<^verbatim>\<open>help_command\<close> catches and logs the failure of its send but replies
  nothing (lines 177 and 178), and \<^verbatim>\<open>start\<close> catches and logs the failure of its welcome
  message, after which the failure reply of line 55 raises in its turn, outside any
  \<^verbatim>\<open>try\<close>, and leaves the handler.
\<close>

theorem failure_reply_skipped_or_escapes:
  "help_command transport_down =
     (Inr (), transport_down\<lparr>trace := [LoggedError HelpCommand NetworkError],
                             script := [Some NetworkError]\<rparr>) \<and>
   start alice [] transport_down =
     (Inl NetworkError, transport_down\<lparr>trace := [LoggedError Start NetworkError],
                             script := []\<rparr>)"
  by (simp add: help_command_def help_command_body_def start_def start_body_def try_except_def
      reply_text_def io_bind_def extern_def emit_def logger_error_def is_Exception_def
      transport_down_def)


text \<open>
  C8, amended: in every handler, an exception that derives from \<^verbatim>\<open>Exception\<close> and is
  raised inside the \<^verbatim>\<open>try\<close> block is caught and logged. \<^verbatim>\<open>start\<close>, \<^verbatim>\<open>handle_verification\<close>,
  \<^verbatim>\<open>handle_contact\<close> and \<^verbatim>\<open>status_command\<close> then send their generic failure reply and,
  when the transport takes it, return normally; \<^verbatim>\<open>help_command\<close> returns normally without
  a reply. Such an exception leaves a handler only when it is raised by the sending of
  the failure reply itself.
\<close>

theorem handlers_catch_and_log:
  "(try_block q w = (Inl e, w1) \<and> is_Exception e \<longrightarrow>
      LoggedError (handler_of q) e \<in> set (trace (snd (run_handler q w)))) \<and>
   (try_block q w = (Inl e, w1) \<and> is_Exception e \<and> failure_reply q = Some m \<and>
    extern w1 = (Inr (), w2) \<longrightarrow>
      run_handler q w =
        (Inr (), w2\<lparr>trace := trace w1 @ [LoggedError (handler_of q) e, ReplyText m]\<rparr>)) \<and>
   (try_block q w = (Inl e, w1) \<and> is_Exception e \<and> failure_reply q = None \<longrightarrow>
      run_handler q w =
        (Inr (), w1\<lparr>trace := trace w1 @ [LoggedError (handler_of q) e]\<rparr>)) \<and>
   (run_handler q w = (Inl e', w') \<and> is_Exception e' \<longrightarrow>
      failure_reply q \<noteq> None \<and>
      (\<exists>e0 w0. try_block q w = (Inl e0, w0) \<and> is_Exception e0 \<and> fst (extern w0) = Inl e'))"
proof -
  have a: "try_block q w = (Inl e, w1) \<and> is_Exception e \<longrightarrow>
      LoggedError (handler_of q) e \<in> set (trace (snd (run_handler q w)))"
    by (simp add: run_handler_try_except try_except_def except_clause_logs)
  have b: "try_block q w = (Inl e, w1) \<and> is_Exception e \<and> failure_reply q = Some m \<and>
    extern w1 = (Inr (), w2) \<longrightarrow>
      run_handler q w =
        (Inr (), w2\<lparr>trace := trace w1 @ [LoggedError (handler_of q) e, ReplyText m]\<rparr>)"
    by (simp add: run_handler_try_except try_except_def except_clause_reply_sent)
  have c: "try_block q w = (Inl e, w1) \<and> is_Exception e \<and> failure_reply q = None \<longrightarrow>
      run_handler q w =
        (Inr (), w1\<lparr>trace := trace w1 @ [LoggedError (handler_of q) e]\<rparr>)"
    by (simp add: run_handler_try_except try_except_def except_clause_def logger_error_def
        emit_def)
  have d: "run_handler q w = (Inl e', w') \<and> is_Exception e' \<longrightarrow>
      failure_reply q \<noteq> None \<and>
      (\<exists>e0 w0. try_block q w = (Inl e0, w0) \<and> is_Exception e0 \<and> fst (extern w0) = Inl e')"
  proof
    assume h: "run_handler q w = (Inl e', w') \<and> is_Exception e'"
    obtain r w0 where tb: "try_block q w = (r, w0)" by (cases "try_block q w")
    show "failure_reply q \<noteq> None \<and>
      (\<exists>e0 w0. try_block q w = (Inl e0, w0) \<and> is_Exception e0 \<and> fst (extern w0) = Inl e')"
    proof (cases r)
      case (Inr x)
      with h tb show ?thesis by (simp add: run_handler_try_except try_except_def)
    next
      case (Inl e0)
      show ?thesis
      proof (cases "is_Exception e0")
        case False
        with h tb Inl show ?thesis by (auto simp: run_handler_try_except try_except_def)
      next
        case True
        with h tb Inl have
          "except_clause (handler_of q) (failure_reply q) e0 w0 = (Inl e', w')"
          by (simp add: run_handler_try_except try_except_def)
        from except_clause_raises [OF this] tb Inl True show ?thesis by auto
      qed
    qed
  qed
  from a b c d show ?thesis by blast
qed

theorem handlers_catch_and_log_witness:
  "handle_verification alice ''ABC123'' pending_code =
     (Inr (), pending_code\<lparr>
        users := [(''u1'', \<lparr>phoneVerified = True, telegramUsername = Some ''alice'',
                           telegramId = Some 42\<rparr>)],
        trace := [VerificationGet ''ABC123'', UserGet ''u1'',
                  UserUpdate ''u1'' (Some ''alice'') 42,
                  LoggedError HandleVerification TypeError, ReplyText ErrVerification]\<rparr>) \<and>
   help_command transport_down =
     (Inr (), transport_down\<lparr>trace := [LoggedError HelpCommand NetworkError],
                             script := [Some NetworkError]\<rparr>) \<and>
   (\<exists>e0 w0. start_body alice [] transport_down = (Inl e0, w0) \<and> is_Exception e0 \<and>
      fst (extern w0) = Inl NetworkError)"
  using handlers_catch_and_log [where q = "CallHandleVerification alice ''ABC123''"
      and w = pending_code and e = TypeError and m = ErrVerification
      and ?w1.0 = "pending_code\<lparr>
        users := [(''u1'', \<lparr>phoneVerified = True, telegramUsername = Some ''alice'',
                           telegramId = Some 42\<rparr>)],
        trace := [VerificationGet ''ABC123'', UserGet ''u1'',
                  UserUpdate ''u1'' (Some ''alice'') 42]\<rparr>"
      and ?w2.0 = "pending_code\<lparr>
        users := [(''u1'', \<lparr>phoneVerified = True, telegramUsername = Some ''alice'',
                           telegramId = Some 42\<rparr>)],
        trace := [VerificationGet ''ABC123'', UserGet ''u1'',
                  UserUpdate ''u1'' (Some ''alice'') 42]\<rparr>"]
    handlers_catch_and_log [where q = CallHelpCommand and w = transport_down
      and e = NetworkError and ?w1.0 = "transport_down\<lparr>script := [Some NetworkError]\<rparr>"]
    handlers_catch_and_log [where q = "CallStart alice []" and w = transport_down
      and e' = NetworkError
      and w' = "transport_down\<lparr>trace := [LoggedError Start NetworkError], script := []\<rparr>"]
  by (simp add: handle_verification_body_def help_command_body_def start_def start_body_def
      document_plain named_doc_plain io_return_def
      try_except_def io_bind_def verification_get_ok user_get_ok user_update_ok extern_def
      reply_text_def emit_def logger_error_def io_raise_def is_Exception_def
      pending_code_def transport_down_def alice_def set_verified_def)

end
